theory Spec2Isabelle
  imports Main
begin

section \<open>The object pool of \<open>Patterns/Object Pool Pattern\<close>\<close>

text \<open>
  The two files \<open>app.py\<close> and \<open>app_with_context.py\<close> define the same classes
  \<open>Reusable\<close> and \<open>ReusablePool\<close>; the second adds the context manager \<open>PoolManager\<close>.

  A \<open>Reusable\<close> defines no \<open>__eq__\<close>, so \<open>list.remove\<close> compares by identity: an object
  is modelled by its identity, a natural number handed out by an allocation counter.
  A \<open>Reusable\<close> is an ordinary Python object, so a caller can store attributes on it; its
  \<open>__dict__\<close> is a map from attribute names to values.
\<close>

type_synonym Reusable = nat

datatype py_error = Exception string | ValueError

text \<open>
  \<open>free\<close> and \<open>in_use\<close> are assigned in the class body (\<open>free: List = []\<close>), and no method
  ever assigns \<open>self.free\<close> or \<open>self.in_use\<close>: the methods only call \<open>append\<close> and \<open>remove\<close> on
  them. The two lists therefore live in the class, once per program, and are part of the
  program state, together with the allocation counter and the attributes of the objects.
\<close>

record world =
  free :: "Reusable list"
  in_use :: "Reusable list"
  next_id :: nat
  attrs :: "Reusable \<Rightarrow> string \<rightharpoonup> string"

text \<open>
  The only attribute \<open>__init__\<close> assigns on the instance is \<open>self.size\<close>: that is all an
  instance of \<open>ReusablePool\<close> holds of its own. (The class attribute \<open>size = 0\<close> is
  hidden by it and never read.)
\<close>

record ReusablePool =
  pool_size :: int

text \<open>The state when the class body has been executed and nothing else.\<close>

definition world0 :: world where
  "world0 = \<lparr>free = [], in_use = [], next_id = 0, attrs = (\<lambda>_. Map.empty)\<rparr>"

text \<open>\<open>self.free\<close> and \<open>self.in_use\<close> read through an instance: the lookup falls through to the class.\<close>

definition self_free :: "world \<Rightarrow> ReusablePool \<Rightarrow> Reusable list" where
  "self_free w self = free w"

definition self_in_use :: "world \<Rightarrow> ReusablePool \<Rightarrow> Reusable list" where
  "self_in_use w self = in_use w"

text \<open>\<open>xs.remove(x)\<close>: removes the first occurrence, raises \<open>ValueError\<close> when there is none.\<close>

definition list_remove :: "'a list \<Rightarrow> 'a \<Rightarrow> py_error + 'a list" where
  "list_remove xs x = (if x \<in> set xs then Inr (remove1 x xs) else Inl ValueError)"

text \<open>\<open>Reusable()\<close>: a new object, with an empty \<open>__dict__\<close>.\<close>

definition new_Reusable :: "world \<Rightarrow> Reusable \<times> world" where
  "new_Reusable w =
     (next_id w, w\<lparr>next_id := Suc (next_id w), attrs := (attrs w)(next_id w := Map.empty)\<rparr>)"

text \<open>\<open>for _ in range(size): self.free.append(Reusable())\<close>, with the number of rounds left.\<close>

fun init_loop :: "nat \<Rightarrow> world \<Rightarrow> world" where
  "init_loop 0 w = w"
| "init_loop (Suc n) w =
     (case new_Reusable w of (r, w') \<Rightarrow> init_loop n (w'\<lparr>free := free w' @ [r]\<rparr>))"

text \<open>
  \<open>ReusablePool(size)\<close>. \<open>range(size)\<close> is empty for \<open>size \<le> 0\<close>, and the body has no
  \<open>raise\<close>: the call returns the instance for every integer.
\<close>

definition ReusablePool_init :: "world \<Rightarrow> int \<Rightarrow> (py_error + ReusablePool) \<times> world" where
  "ReusablePool_init w sz = (Inr \<lparr>pool_size = sz\<rparr>, init_loop (nat sz) w)"

definition acquire :: "world \<Rightarrow> ReusablePool \<Rightarrow> (py_error + Reusable) \<times> world" where
  "acquire w self =
     (if int (length (self_free w self)) \<le> 0
      then (Inl (Exception ''No more objects are available.''), w)
      else
        let reusable = self_free w self ! 0 in
        case list_remove (self_free w self) reusable of
          Inl e \<Rightarrow> (Inl e, w)
        | Inr free' \<Rightarrow>
            (Inr reusable, w\<lparr>free := free', in_use := self_in_use w self @ [reusable]\<rparr>))"

definition release :: "world \<Rightarrow> ReusablePool \<Rightarrow> Reusable \<Rightarrow> (py_error + unit) \<times> world" where
  "release w self reusable =
     (case list_remove (self_in_use w self) reusable of
        Inl e \<Rightarrow> (Inl e, w)
      | Inr in_use' \<Rightarrow>
          (Inr (), w\<lparr>in_use := in_use', free := self_free w self @ [reusable]\<rparr>))"

text \<open>
  A caller's calls on the class and its instances. A call that raises leaves the state as
  the method left it at the \<open>raise\<close>, and the caller carries on with the next call.
\<close>

datatype call = New int | Acquire ReusablePool | Release ReusablePool Reusable

fun step :: "world \<Rightarrow> call \<Rightarrow> world" where
  "step w (New sz) = snd (ReusablePool_init w sz)"
| "step w (Acquire self) = snd (acquire w self)"
| "step w (Release self r) = snd (release w self r)"

fun run :: "world \<Rightarrow> call list \<Rightarrow> world" where
  "run w [] = w"
| "run w (c # cs) = run (step w c) cs"

text \<open>What the caller sees of each call: the value returned or the exception raised.\<close>

datatype outcome = Created ReusablePool | Acquired Reusable | Released | Raised py_error

fun result :: "world \<Rightarrow> call \<Rightarrow> outcome" where
  "result w (New sz) =
     (case fst (ReusablePool_init w sz) of Inl e \<Rightarrow> Raised e | Inr p \<Rightarrow> Created p)"
| "result w (Acquire self) =
     (case fst (acquire w self) of Inl e \<Rightarrow> Raised e | Inr r \<Rightarrow> Acquired r)"
| "result w (Release self r) =
     (case fst (release w self r) of Inl e \<Rightarrow> Raised e | Inr _ \<Rightarrow> Released)"

fun outcomes :: "world \<Rightarrow> call list \<Rightarrow> outcome list" where
  "outcomes w [] = []"
| "outcomes w (c # cs) = result w c # outcomes (step w c) cs"

text \<open>The number of resources a call creates: \<open>size\<close> for a construction, when positive.\<close>

fun created :: "call \<Rightarrow> nat" where
  "created (New sz) = nat sz"
| "created (Acquire self) = 0"
| "created (Release self r) = 0"

text \<open>\<open>r.name = value\<close>, a caller storing an attribute on a resource it holds.\<close>

definition setattr :: "world \<Rightarrow> Reusable \<Rightarrow> string \<Rightarrow> string \<Rightarrow> world" where
  "setattr w r name v = w\<lparr>attrs := (attrs w)(r := (attrs w r)(name \<mapsto> v))\<rparr>"

subsection \<open>The context manager of \<open>app_with_context.py\<close>\<close>

record PoolManager =
  pm_pool :: ReusablePool
  pm_obj :: "Reusable option"

definition PoolManager_init :: "ReusablePool \<Rightarrow> PoolManager" where
  "PoolManager_init pool = \<lparr>pm_pool = pool, pm_obj = None\<rparr>"

definition PoolManager_enter :: "world \<Rightarrow> PoolManager \<Rightarrow> (py_error + Reusable) \<times> world \<times> PoolManager" where
  "PoolManager_enter w self =
     (case acquire w (pm_pool self) of
        (Inl e, w') \<Rightarrow> (Inl e, w', self)
      | (Inr r, w') \<Rightarrow> (Inr r, w', self\<lparr>pm_obj := Some r\<rparr>))"

text \<open>
  \<open>__exit__(self, type, value, traceback)\<close>: the three arguments describe the exception
  that left the block, or are all \<open>None\<close>; they are one optional error here. The body is
  \<open>self.pool.release(self.obj)\<close>. While \<open>self.obj\<close> is still \<open>None\<close>, \<open>in_use.remove(None)\<close>
  finds no equal element (the lists hold \<open>Reusable\<close> objects only) and raises \<open>ValueError\<close>.
  The method returns \<open>None\<close>, so it never suppresses the exception of the block.
\<close>

definition PoolManager_exit :: "world \<Rightarrow> PoolManager \<Rightarrow> py_error option \<Rightarrow> (py_error + unit) \<times> world" where
  "PoolManager_exit w self exc =
     (case pm_obj self of
        None \<Rightarrow> (Inl ValueError, w)
      | Some obj \<Rightarrow> release w (pm_pool self) obj)"

text \<open>
  \<open>with PoolManager(pool) as r: body\<close>. Python calls \<open>__exit__\<close> only when \<open>__enter__\<close>
  has returned; an exception of \<open>__exit__\<close> replaces the one of the block; otherwise the
  block's exception, if any, goes on to the caller.
\<close>

definition with_PoolManager ::
  "world \<Rightarrow> ReusablePool \<Rightarrow> (Reusable \<Rightarrow> world \<Rightarrow> (py_error + 'a) \<times> world) \<Rightarrow> (py_error + 'a) \<times> world" where
  "with_PoolManager w pool body =
     (case PoolManager_enter w (PoolManager_init pool) of
        (Inl e, w1, m) \<Rightarrow> (Inl e, w1)
      | (Inr r, w1, m) \<Rightarrow>
          (case body r w1 of
             (res, w2) \<Rightarrow>
               (case PoolManager_exit w2 m (case res of Inl e \<Rightarrow> Some e | Inr _ \<Rightarrow> None) of
                  (Inl e', w3) \<Rightarrow> (Inl e', w3)
                | (Inr _, w3) \<Rightarrow> (res, w3))))"

text \<open>
  The bookkeeping invariant used in the proofs: no object occurs twice in the two lists
  taken together, and every object in them has been allocated.
\<close>

definition pool_inv :: "world \<Rightarrow> bool" where
  "pool_inv w = (distinct (free w @ in_use w) \<and> set (free w @ in_use w) \<subseteq> {..< next_id w})"

section \<open>Basic facts about the methods\<close>


lemma acquire_empty: "free w = [] \<Longrightarrow> acquire w self = (Inl (Exception ''No more objects are available.''), w)"
  by (simp add: acquire_def self_free_def)

lemma acquire_nonempty:
  "free w = r # rs \<Longrightarrow> acquire w self = (Inr r, w\<lparr>free := rs, in_use := in_use w @ [r]\<rparr>)"
  by (simp add: acquire_def self_free_def self_in_use_def list_remove_def)

lemma release_not_leased: "r \<notin> set (in_use w) \<Longrightarrow> release w self r = (Inl ValueError, w)"
  by (simp add: release_def self_in_use_def list_remove_def)

lemma release_leased:
  "r \<in> set (in_use w) \<Longrightarrow>
   release w self r = (Inr (), w\<lparr>in_use := remove1 r (in_use w), free := free w @ [r]\<rparr>)"
  by (simp add: release_def self_in_use_def self_free_def list_remove_def)

lemma init_loop_free: "free (init_loop n w) = free w @ [next_id w ..< next_id w + n]"
proof (induction n arbitrary: w)
  case 0
  show ?case by simp
next
  case (Suc n)
  have "[next_id w ..< next_id w + Suc n] = next_id w # [Suc (next_id w) ..< Suc (next_id w) + n]"
    by (simp add: upt_rec)
  with Suc show ?case by (simp add: new_Reusable_def)
qed

lemma init_loop_in_use: "in_use (init_loop n w) = in_use w"
  by (induction n arbitrary: w) (simp_all add: new_Reusable_def)

lemma init_loop_next_id: "next_id (init_loop n w) = next_id w + n"
  by (induction n arbitrary: w) (simp_all add: new_Reusable_def)

lemma acquire_attrs: "attrs (snd (acquire w self)) = attrs w"
  by (cases "free w") (simp_all add: acquire_empty acquire_nonempty)

lemma release_attrs: "attrs (snd (release w self r)) = attrs w"
  by (cases "r \<in> set (in_use w)") (simp_all add: release_not_leased release_leased)

lemmas eval_defs =
  world0_def ReusablePool_init_def eval_nat_numeral new_Reusable_def acquire_def release_def
  list_remove_def self_free_def self_in_use_def setattr_def
  PoolManager_init_def PoolManager_enter_def PoolManager_exit_def with_PoolManager_def

subsection \<open>The number of resources\<close>

lemma acquire_count:
  "length (free (snd (acquire w self))) + length (in_use (snd (acquire w self)))
   = length (free w) + length (in_use w)"
  by (cases "free w") (simp_all add: acquire_empty acquire_nonempty)

lemma release_count:
  "length (free (snd (release w self r))) + length (in_use (snd (release w self r)))
   = length (free w) + length (in_use w)"
proof (cases "r \<in> set (in_use w)")
  case True
  then have "in_use w \<noteq> []" by auto
  then have "0 < length (in_use w)" by simp
  with True show ?thesis by (simp add: release_leased length_remove1)
next
  case False
  then show ?thesis by (simp add: release_not_leased)
qed

lemma step_count:
  "length (free (step w c)) + length (in_use (step w c))
   = length (free w) + length (in_use w) + created c"
  by (cases c)
     (simp_all add: ReusablePool_init_def init_loop_free init_loop_in_use acquire_count release_count)

lemma run_count:
  "length (free (run w cs)) + length (in_use (run w cs))
   = length (free w) + length (in_use w) + sum_list (map created cs)"
  by (induction cs arbitrary: w) (simp_all add: step_count)


subsection \<open>The invariant\<close>

lemma pool_inv_world0: "pool_inv world0"
  by (simp add: pool_inv_def world0_def)

lemma pool_inv_init_loop: "pool_inv w \<Longrightarrow> pool_inv (init_loop n w)"
  by (auto simp: pool_inv_def init_loop_free init_loop_in_use init_loop_next_id)

lemma pool_inv_acquire: "pool_inv w \<Longrightarrow> pool_inv (snd (acquire w self))"
  by (cases "free w") (auto simp: pool_inv_def acquire_empty acquire_nonempty)

lemma pool_inv_release: "pool_inv w \<Longrightarrow> pool_inv (snd (release w self r))"
  by (cases "r \<in> set (in_use w)") (auto simp: pool_inv_def release_not_leased release_leased)

lemma pool_inv_step: "pool_inv w \<Longrightarrow> pool_inv (step w c)"
  by (cases c) (simp_all add: ReusablePool_init_def pool_inv_init_loop pool_inv_acquire pool_inv_release)

lemma pool_inv_run: "pool_inv w \<Longrightarrow> pool_inv (run w cs)"
  by (induction cs arbitrary: w) (simp_all add: pool_inv_step)

subsection \<open>The order of the free list\<close>



subsection \<open>The context manager\<close>




section \<open>The claims\<close>

text \<open>
  C1. The two lists belong to the class, so after every sequence of calls from the class
  as defined the number of resources in \<open>free\<close> plus the number in \<open>in_use\<close> is the total
  created by all constructions, not the capacity of one pool. After \<open>ReusablePool(2)\<close>,
  \<open>ReusablePool(3)\<close> and one \<open>acquire\<close> on the second pool, that pool has \<open>size\<close> 3 and
  sees 4 resources in \<open>free\<close> and 1 in \<open>in_use\<close>.
\<close>

theorem pool_count_is_total_of_all_pools:
  "length (free (run world0 cs)) + length (in_use (run world0 cs)) = sum_list (map created cs)
   \<and> outcomes world0 [New 2, New 3, Acquire \<lparr>pool_size = 3\<rparr>]
       = [Created \<lparr>pool_size = 2\<rparr>, Created \<lparr>pool_size = 3\<rparr>, Acquired 0]
   \<and> length (self_free (run world0 [New 2, New 3, Acquire \<lparr>pool_size = 3\<rparr>]) \<lparr>pool_size = 3\<rparr>) = 4
   \<and> length (self_in_use (run world0 [New 2, New 3, Acquire \<lparr>pool_size = 3\<rparr>]) \<lparr>pool_size = 3\<rparr>) = 1
   \<and> int (length (free (run world0 [New 2, New 3, Acquire \<lparr>pool_size = 3\<rparr>]))
          + length (in_use (run world0 [New 2, New 3, Acquire \<lparr>pool_size = 3\<rparr>])))
       \<noteq> pool_size \<lparr>pool_size = 3\<rparr>"
proof -
  have total: "length (free (run world0 cs)) + length (in_use (run world0 cs)) = sum_list (map created cs)"
    by (simp add: run_count world0_def)
  have seen: "outcomes world0 [New 2, New 3, Acquire \<lparr>pool_size = 3\<rparr>]
       = [Created \<lparr>pool_size = 2\<rparr>, Created \<lparr>pool_size = 3\<rparr>, Acquired 0]"
    by (simp add: eval_defs)
  have sizes:
    "length (self_free (run world0 [New 2, New 3, Acquire \<lparr>pool_size = 3\<rparr>]) \<lparr>pool_size = 3\<rparr>) = 4"
    "length (self_in_use (run world0 [New 2, New 3, Acquire \<lparr>pool_size = 3\<rparr>]) \<lparr>pool_size = 3\<rparr>) = 1"
    by (simp_all add: eval_defs)
  have differ: "int (length (free (run world0 [New 2, New 3, Acquire \<lparr>pool_size = 3\<rparr>]))
          + length (in_use (run world0 [New 2, New 3, Acquire \<lparr>pool_size = 3\<rparr>])))
       \<noteq> pool_size \<lparr>pool_size = 3\<rparr>"
    by (simp add: eval_defs)
  from total seen sizes differ show ?thesis by blast
qed

text \<open>
  C2. Starting from the class as defined, after every call of every sequence of pool
  constructions, \<open>acquire\<close> calls and \<open>release\<close> calls (on any pool, with any argument,
  raising or not), no resource is in both \<open>free\<close> and \<open>in_use\<close>.
\<close>

theorem free_in_use_disjoint:
  "set (free (run world0 (take n cs))) \<inter> set (in_use (run world0 (take n cs))) = {}"
proof -
  have "pool_inv (run world0 (take n cs))"
    by (rule pool_inv_run) (rule pool_inv_world0)
  then show ?thesis by (simp add: pool_inv_def)
qed

text \<open>
  C3. When the free list is empty, \<open>acquire\<close> returns at once with the exception
  \<open>Exception("No more objects are available.")\<close> (the pool-exhausted error of the code):
  no object is created and the whole state, both lists included, is as before.
\<close>

theorem acquire_exhausted:
  "free w = [] \<Longrightarrow>
   acquire w self = (Inl (Exception ''No more objects are available.''), w)
   \<and> free (snd (acquire w self)) = free w
   \<and> in_use (snd (acquire w self)) = in_use w
   \<and> next_id (snd (acquire w self)) = next_id w"
  by (simp add: acquire_empty)

theorem acquire_exhausted_witness:
  "free (run world0 [New 1, Acquire \<lparr>pool_size = 1\<rparr>]) = []
   \<and> fst (acquire (run world0 [New 1, Acquire \<lparr>pool_size = 1\<rparr>]) \<lparr>pool_size = 1\<rparr>)
       = Inl (Exception ''No more objects are available.'')
   \<and> in_use (snd (acquire (run world0 [New 1, Acquire \<lparr>pool_size = 1\<rparr>]) \<lparr>pool_size = 1\<rparr>)) = [0]
   \<and> next_id (snd (acquire (run world0 [New 1, Acquire \<lparr>pool_size = 1\<rparr>]) \<lparr>pool_size = 1\<rparr>)) = 1"
proof -
  have e: "free (run world0 [New 1, Acquire \<lparr>pool_size = 1\<rparr>]) = []"
    by (simp add: eval_defs)
  have i: "in_use (run world0 [New 1, Acquire \<lparr>pool_size = 1\<rparr>]) = [0]"
    by (simp add: eval_defs)
  have n: "next_id (run world0 [New 1, Acquire \<lparr>pool_size = 1\<rparr>]) = 1"
    by (simp add: eval_defs)
  from acquire_exhausted [OF e, of "\<lparr>pool_size = 1\<rparr>"] e i n show ?thesis
    by simp
qed

text \<open>
  C4. \<open>release\<close> is \<open>in_use.remove\<close> followed by \<open>free.append\<close> and nothing else: it calls
  no method of the resource and leaves the attributes of every object as they are. In the
  scenario, the only resource of a pool is acquired, the caller stores
  \<open>token = "secret"\<close> on it and releases it; the release succeeds, the resource is back
  in \<open>free\<close>, the next \<open>acquire\<close> returns the same resource, and the token is still there.
\<close>

theorem release_resets_nothing:
  "attrs (snd (release w self r)) = attrs w
   \<and> outcomes world0 [New 1, Acquire \<lparr>pool_size = 1\<rparr>] = [Created \<lparr>pool_size = 1\<rparr>, Acquired 0]
   \<and> release (setattr (run world0 [New 1, Acquire \<lparr>pool_size = 1\<rparr>]) 0 ''token'' ''secret'')
         \<lparr>pool_size = 1\<rparr> 0
       = (Inr (), setattr (run world0 [New 1, Acquire \<lparr>pool_size = 1\<rparr>, Release \<lparr>pool_size = 1\<rparr> 0])
                    0 ''token'' ''secret'')
   \<and> free (setattr (run world0 [New 1, Acquire \<lparr>pool_size = 1\<rparr>, Release \<lparr>pool_size = 1\<rparr> 0])
              0 ''token'' ''secret'') = [0]
   \<and> fst (acquire (setattr (run world0 [New 1, Acquire \<lparr>pool_size = 1\<rparr>, Release \<lparr>pool_size = 1\<rparr> 0])
                      0 ''token'' ''secret'') \<lparr>pool_size = 1\<rparr>) = Inr 0
   \<and> attrs (snd (acquire (setattr (run world0 [New 1, Acquire \<lparr>pool_size = 1\<rparr>, Release \<lparr>pool_size = 1\<rparr> 0])
                      0 ''token'' ''secret'') \<lparr>pool_size = 1\<rparr>)) 0 ''token'' = Some ''secret''"
proof -
  have general: "attrs (snd (release w self r)) = attrs w"
    by (rule release_attrs)
  have scenario:
    "outcomes world0 [New 1, Acquire \<lparr>pool_size = 1\<rparr>] = [Created \<lparr>pool_size = 1\<rparr>, Acquired 0]"
    "release (setattr (run world0 [New 1, Acquire \<lparr>pool_size = 1\<rparr>]) 0 ''token'' ''secret'')
         \<lparr>pool_size = 1\<rparr> 0
       = (Inr (), setattr (run world0 [New 1, Acquire \<lparr>pool_size = 1\<rparr>, Release \<lparr>pool_size = 1\<rparr> 0])
                    0 ''token'' ''secret'')"
    "free (setattr (run world0 [New 1, Acquire \<lparr>pool_size = 1\<rparr>, Release \<lparr>pool_size = 1\<rparr> 0])
              0 ''token'' ''secret'') = [0]"
    "fst (acquire (setattr (run world0 [New 1, Acquire \<lparr>pool_size = 1\<rparr>, Release \<lparr>pool_size = 1\<rparr> 0])
                      0 ''token'' ''secret'') \<lparr>pool_size = 1\<rparr>) = Inr 0"
    "attrs (snd (acquire (setattr (run world0 [New 1, Acquire \<lparr>pool_size = 1\<rparr>, Release \<lparr>pool_size = 1\<rparr> 0])
                      0 ''token'' ''secret'') \<lparr>pool_size = 1\<rparr>)) 0 ''token'' = Some ''secret''"
    by (simp_all add: eval_defs)
  from general scenario show ?thesis by blast
qed

text \<open>
  C5. \<open>release\<close> of a resource that is not in \<open>in_use\<close> (one never acquired, or one already
  released) raises the \<open>ValueError\<close> of \<open>in_use.remove\<close> (the double-release error of the
  code) before \<open>free.append\<close> is reached: the state is unchanged, and so are the sizes of
  both lists.
\<close>

theorem release_unleased_raises:
  "r \<notin> set (in_use w) \<Longrightarrow>
   release w self r = (Inl ValueError, w)
   \<and> length (free (snd (release w self r))) = length (free w)
   \<and> length (in_use (snd (release w self r))) = length (in_use w)"
  by (simp add: release_not_leased)

text \<open>The double release of the specification: acquire A, release A, release A again.\<close>

theorem release_unleased_raises_witness:
  "outcomes world0 [New 2, Acquire \<lparr>pool_size = 2\<rparr>, Release \<lparr>pool_size = 2\<rparr> 0]
     = [Created \<lparr>pool_size = 2\<rparr>, Acquired 0, Released]
   \<and> 0 \<notin> set (in_use (run world0 [New 2, Acquire \<lparr>pool_size = 2\<rparr>, Release \<lparr>pool_size = 2\<rparr> 0]))
   \<and> fst (release (run world0 [New 2, Acquire \<lparr>pool_size = 2\<rparr>, Release \<lparr>pool_size = 2\<rparr> 0])
            \<lparr>pool_size = 2\<rparr> 0) = Inl ValueError
   \<and> length (free (snd (release (run world0 [New 2, Acquire \<lparr>pool_size = 2\<rparr>, Release \<lparr>pool_size = 2\<rparr> 0])
            \<lparr>pool_size = 2\<rparr> 0))) = 2
   \<and> length (in_use (snd (release (run world0 [New 2, Acquire \<lparr>pool_size = 2\<rparr>, Release \<lparr>pool_size = 2\<rparr> 0])
            \<lparr>pool_size = 2\<rparr> 0))) = 0"
proof -
  have o: "outcomes world0 [New 2, Acquire \<lparr>pool_size = 2\<rparr>, Release \<lparr>pool_size = 2\<rparr> 0]
     = [Created \<lparr>pool_size = 2\<rparr>, Acquired 0, Released]"
    by (simp add: eval_defs)
  have h: "0 \<notin> set (in_use (run world0 [New 2, Acquire \<lparr>pool_size = 2\<rparr>, Release \<lparr>pool_size = 2\<rparr> 0]))"
    by (simp add: eval_defs)
  have f: "length (free (run world0 [New 2, Acquire \<lparr>pool_size = 2\<rparr>, Release \<lparr>pool_size = 2\<rparr> 0])) = 2"
    by (simp add: eval_defs)
  have i: "length (in_use (run world0 [New 2, Acquire \<lparr>pool_size = 2\<rparr>, Release \<lparr>pool_size = 2\<rparr> 0])) = 0"
    by (simp add: eval_defs)
  from release_unleased_raises [OF h, of "\<lparr>pool_size = 2\<rparr>"] o h f i show ?thesis
    by simp
qed

text \<open>
  C6, as amended. \<open>__init__\<close> has no check on \<open>size\<close>: for every integer capacity the
  construction succeeds and returns a pool whose \<open>size\<close> is that capacity; for a capacity
  of zero or less the loop body never runs and the state is unchanged.
\<close>

theorem init_always_succeeds:
  "fst (ReusablePool_init w c) = Inr \<lparr>pool_size = c\<rparr>
   \<and> (c \<le> 0 \<longrightarrow> snd (ReusablePool_init w c) = w)"
  by (simp add: ReusablePool_init_def)

theorem init_always_succeeds_witness:
  "fst (ReusablePool_init world0 (- 3)) = Inr \<lparr>pool_size = - 3\<rparr>
   \<and> (- 3 :: int) \<le> 0
   \<and> snd (ReusablePool_init world0 (- 3)) = world0"
  using init_always_succeeds [of world0 "- 3"] by simp

text \<open>The claim as stated fails at capacities 0 and \<open>-1\<close>: no error, a pool is returned.\<close>

theorem init_nonpositive_counterexample:
  "\<not> isl (fst (ReusablePool_init world0 0))
   \<and> fst (ReusablePool_init world0 0) = Inr \<lparr>pool_size = 0\<rparr>
   \<and> \<not> isl (fst (ReusablePool_init world0 (- 1)))
   \<and> fst (ReusablePool_init world0 (- 1)) = Inr \<lparr>pool_size = - 1\<rparr>
   \<and> free (snd (ReusablePool_init world0 (- 1))) = []"
  by (simp add: ReusablePool_init_def world0_def)



text \<open>
  C8. A construction appends its new resources to the \<open>free\<close> list of the class and leaves
  \<open>in_use\<close> as it is, so a pool constructed after another does not hold exactly its
  capacity: the pool made by a second \<open>ReusablePool(1)\<close> sees two resources in \<open>free\<close>,
  and, when the only resource of the first pool is out, it sees that resource in \<open>in_use\<close>.
\<close>

theorem second_pool_sees_earlier_resources:
  "free (snd (ReusablePool_init w c)) = free w @ [next_id w ..< next_id w + nat c]
   \<and> in_use (snd (ReusablePool_init w c)) = in_use w
   \<and> outcomes world0 [New 1, New 1] = [Created \<lparr>pool_size = 1\<rparr>, Created \<lparr>pool_size = 1\<rparr>]
   \<and> self_free (run world0 [New 1, New 1]) \<lparr>pool_size = 1\<rparr> = [0, 1]
   \<and> outcomes world0 [New 1, Acquire \<lparr>pool_size = 1\<rparr>, New 1]
       = [Created \<lparr>pool_size = 1\<rparr>, Acquired 0, Created \<lparr>pool_size = 1\<rparr>]
   \<and> self_free (run world0 [New 1, Acquire \<lparr>pool_size = 1\<rparr>, New 1]) \<lparr>pool_size = 1\<rparr> = [1]
   \<and> self_in_use (run world0 [New 1, Acquire \<lparr>pool_size = 1\<rparr>, New 1]) \<lparr>pool_size = 1\<rparr> = [0]"
proof -
  have general: "free (snd (ReusablePool_init w c)) = free w @ [next_id w ..< next_id w + nat c]"
    "in_use (snd (ReusablePool_init w c)) = in_use w"
    by (simp_all add: ReusablePool_init_def init_loop_free init_loop_in_use)
  have two: "outcomes world0 [New 1, New 1] = [Created \<lparr>pool_size = 1\<rparr>, Created \<lparr>pool_size = 1\<rparr>]"
    "self_free (run world0 [New 1, New 1]) \<lparr>pool_size = 1\<rparr> = [0, 1]"
    by (simp_all add: eval_defs)
  have leased: "outcomes world0 [New 1, Acquire \<lparr>pool_size = 1\<rparr>, New 1]
       = [Created \<lparr>pool_size = 1\<rparr>, Acquired 0, Created \<lparr>pool_size = 1\<rparr>]"
    "self_free (run world0 [New 1, Acquire \<lparr>pool_size = 1\<rparr>, New 1]) \<lparr>pool_size = 1\<rparr> = [1]"
    "self_in_use (run world0 [New 1, Acquire \<lparr>pool_size = 1\<rparr>, New 1]) \<lparr>pool_size = 1\<rparr> = [0]"
    by (simp_all add: eval_defs)
  from general two leased show ?thesis by blast
qed




text \<open>
  C10, as amended. The lists are shared: after \<open>ReusablePool(c1)\<close> and then
  \<open>ReusablePool(c2)\<close>, from any state, both pool objects see the same \<open>free\<close> list and
  the same \<open>in_use\<close> list. The second construction appends its resources to the \<open>free\<close>
  list the first pool sees, which then holds what it held before the two constructions
  and \<open>max c1 0 + max c2 0\<close> more resources (\<open>c1 + c2\<close> resources when it was empty before
  and neither capacity is negative); the constructions leave \<open>in_use\<close> as it was. An
  \<open>acquire\<close> or a \<open>release\<close> through the second pool object changes the lists seen
  through the first.
\<close>

theorem lists_shared_between_pools:
  assumes "ReusablePool_init w c1 = (Inr p1, w1)"
    and "ReusablePool_init w1 c2 = (Inr p2, w2)"
  shows "self_free w2 p1 = self_free w2 p2
     \<and> self_in_use w2 p1 = self_in_use w2 p2
     \<and> self_free w1 p1 = free w @ [next_id w ..< next_id w + nat c1]
     \<and> self_free w2 p1 = self_free w1 p1 @ [next_id w1 ..< next_id w1 + nat c2]
     \<and> length (self_free w2 p1) = length (free w) + nat c1 + nat c2
     \<and> (free w = [] \<and> 0 \<le> c1 \<and> 0 \<le> c2 \<longrightarrow> int (length (self_free w2 p2)) = c1 + c2)
     \<and> self_in_use w2 p1 = in_use w
     \<and> self_in_use (snd (acquire w2 p2)) p1
         = (case free w2 of [] \<Rightarrow> in_use w2 | r # _ \<Rightarrow> in_use w2 @ [r])
     \<and> self_free (snd (acquire w2 p2)) p1 = tl (free w2)
     \<and> self_free (snd (release w2 p2 r)) p1
         = (if r \<in> set (in_use w2) then free w2 @ [r] else free w2)
     \<and> self_in_use (snd (release w2 p2 r)) p1 = remove1 r (in_use w2)"
proof -
  from assms(1) have w1: "w1 = init_loop (nat c1) w"
    by (simp add: ReusablePool_init_def)
  from assms(2) have w2: "w2 = init_loop (nat c2) w1"
    by (simp add: ReusablePool_init_def)
  have f1: "free w1 = free w @ [next_id w ..< next_id w + nat c1]"
    by (simp add: w1 init_loop_free)
  have f2: "free w2 = free w1 @ [next_id w1 ..< next_id w1 + nat c2]"
    by (simp add: w2 init_loop_free)
  have i2: "in_use w2 = in_use w"
    by (simp add: w1 w2 init_loop_in_use)
  have len: "length (free w2) = length (free w) + nat c1 + nat c2"
    by (simp add: f1 f2)
  have acq_i: "in_use (snd (acquire w2 p2)) = (case free w2 of [] \<Rightarrow> in_use w2 | r # _ \<Rightarrow> in_use w2 @ [r])"
    by (cases "free w2") (simp_all add: acquire_empty acquire_nonempty)
  have acq_f: "free (snd (acquire w2 p2)) = tl (free w2)"
    by (cases "free w2") (simp_all add: acquire_empty acquire_nonempty)
  have rel_f: "free (snd (release w2 p2 r)) = (if r \<in> set (in_use w2) then free w2 @ [r] else free w2)"
    by (simp add: release_leased release_not_leased)
  have rel_i: "in_use (snd (release w2 p2 r)) = remove1 r (in_use w2)"
    by (cases "r \<in> set (in_use w2)") (simp_all add: release_leased release_not_leased remove1_idem)
  from f1 f2 i2 len acq_i acq_f rel_f rel_i show ?thesis
    by (simp add: self_free_def self_in_use_def)
qed

theorem lists_shared_between_pools_witness:
  "ReusablePool_init world0 2 = (Inr \<lparr>pool_size = 2\<rparr>, run world0 [New 2])
   \<and> ReusablePool_init (run world0 [New 2]) 3 = (Inr \<lparr>pool_size = 3\<rparr>, run world0 [New 2, New 3])
   \<and> self_free (run world0 [New 2, New 3]) \<lparr>pool_size = 2\<rparr>
       = self_free (run world0 [New 2, New 3]) \<lparr>pool_size = 3\<rparr>
   \<and> self_free (run world0 [New 2]) \<lparr>pool_size = 2\<rparr> = [0, 1]
   \<and> self_free (run world0 [New 2, New 3]) \<lparr>pool_size = 2\<rparr> = [0, 1, 2, 3, 4]
   \<and> free world0 = [] \<and> (0::int) \<le> 2 \<and> (0::int) \<le> 3
   \<and> int (length (self_free (run world0 [New 2, New 3]) \<lparr>pool_size = 3\<rparr>)) = 2 + 3
   \<and> self_in_use (snd (acquire (run world0 [New 2, New 3]) \<lparr>pool_size = 3\<rparr>)) \<lparr>pool_size = 2\<rparr> = [0]
   \<and> self_free (snd (acquire (run world0 [New 2, New 3]) \<lparr>pool_size = 3\<rparr>)) \<lparr>pool_size = 2\<rparr> = [1, 2, 3, 4]"
proof -
  have c: "ReusablePool_init world0 2 = (Inr \<lparr>pool_size = 2\<rparr>, run world0 [New 2])"
    by (simp add: ReusablePool_init_def)
  have d: "ReusablePool_init (run world0 [New 2]) 3 = (Inr \<lparr>pool_size = 3\<rparr>, run world0 [New 2, New 3])"
    by (simp add: ReusablePool_init_def)
  have f0: "free world0 = []" "next_id world0 = 0" "in_use world0 = []"
    by (simp_all add: world0_def)
  have n1: "next_id (run world0 [New 2]) = 2"
    by (simp add: ReusablePool_init_def init_loop_next_id world0_def)
  have u: "[0 ..< 0 + nat 2] = [0, 1]" "[2 ..< 2 + nat 3] = [2, 3, 4]"
    by (simp_all add: eval_nat_numeral)
  note shared = lists_shared_between_pools [OF c d, of 0]
  from shared f0 n1 u have
    "self_free (run world0 [New 2, New 3]) \<lparr>pool_size = 2\<rparr>
       = self_free (run world0 [New 2, New 3]) \<lparr>pool_size = 3\<rparr>
     \<and> self_free (run world0 [New 2]) \<lparr>pool_size = 2\<rparr> = [0, 1]
     \<and> self_free (run world0 [New 2, New 3]) \<lparr>pool_size = 2\<rparr> = [0, 1, 2, 3, 4]
     \<and> free world0 = [] \<and> (0::int) \<le> 2 \<and> (0::int) \<le> 3
     \<and> int (length (self_free (run world0 [New 2, New 3]) \<lparr>pool_size = 3\<rparr>)) = 2 + 3
     \<and> self_in_use (snd (acquire (run world0 [New 2, New 3]) \<lparr>pool_size = 3\<rparr>)) \<lparr>pool_size = 2\<rparr> = [0]
     \<and> self_free (snd (acquire (run world0 [New 2, New 3]) \<lparr>pool_size = 3\<rparr>)) \<lparr>pool_size = 2\<rparr> = [1, 2, 3, 4]"
    by (simp add: self_free_def self_in_use_def)
  with c d show ?thesis
    by blast
qed

text \<open>
  The claim as stated fails for a negative capacity: after \<open>ReusablePool(-1)\<close> and
  \<open>ReusablePool(3)\<close> both pools see 3 resources in \<open>free\<close>, not \<open>-1 + 3\<close>.
\<close>

theorem negative_capacity_count_counterexample:
  "outcomes world0 [New (- 1), New 3] = [Created \<lparr>pool_size = - 1\<rparr>, Created \<lparr>pool_size = 3\<rparr>]
   \<and> self_free (run world0 [New (- 1), New 3]) \<lparr>pool_size = - 1\<rparr> = [0, 1, 2]
   \<and> self_free (run world0 [New (- 1), New 3]) \<lparr>pool_size = 3\<rparr> = [0, 1, 2]
   \<and> int (length (self_free (run world0 [New (- 1), New 3]) \<lparr>pool_size = 3\<rparr>)) \<noteq> - 1 + 3"
  by (simp add: eval_defs)

end
